theory Spec2Isabelle
  imports Main "HOL-Library.AList" "HOL-Library.Product_Lexorder"
begin

section \<open>JavaScript strings and the Node library functions the services call\<close>

text \<open>
  JavaScript strings are modelled as byte strings (\<open>char list\<close>); for ASCII text the two
  agree. The helpers below are the \<open>String.prototype\<close> methods the sources use.
\<close>

definition startsWith :: "string \<Rightarrow> string \<Rightarrow> bool" where
  "startsWith s p = (take (length p) s = p)"

definition endsWith :: "string \<Rightarrow> string \<Rightarrow> bool" where
  "endsWith s p = (length p \<le> length s \<and> drop (length s - length p) s = p)"

fun str_includes :: "string \<Rightarrow> string \<Rightarrow> bool" where
  "str_includes [] p = (p = [])"
| "str_includes (c # cs) p = (startsWith (c # cs) p \<or> str_includes cs p)"

definition isWhitespace :: "char \<Rightarrow> bool" where
  "isWhitespace c = (c \<in> set [CHR '' '', CHR 0x09, CHR 0x0A, CHR 0x0B, CHR 0x0C, CHR 0x0D])"

definition trim :: "string \<Rightarrow> string" where
  "trim s = rev (dropWhile isWhitespace (rev (dropWhile isWhitespace s)))"

definition toLowerChar :: "char \<Rightarrow> char" where
  "toLowerChar c =
     (case map_of (zip ''ABCDEFGHIJKLMNOPQRSTUVWXYZ'' ''abcdefghijklmnopqrstuvwxyz'') c of
        Some d \<Rightarrow> d
      | None \<Rightarrow> c)"

definition toLowerCase :: "string \<Rightarrow> string" where
  "toLowerCase s = map toLowerChar s"

fun split_on :: "char \<Rightarrow> string \<Rightarrow> string list" where
  "split_on d [] = [[]]"
| "split_on d (c # cs) =
     (if c = d then [] # split_on d cs
      else (case split_on d cs of
              [] \<Rightarrow> [[c]]
            | seg # segs \<Rightarrow> (c # seg) # segs))"

fun join_with :: "string \<Rightarrow> string list \<Rightarrow> string" where
  "join_with sep [] = []"
| "join_with sep [x] = x"
| "join_with sep (x # y # ys) = x @ sep @ join_with sep (y # ys)"

subsection \<open>\<open>path.posix\<close>: basename, extname, join\<close>

text \<open>
  \<open>path.basename(p)\<close> drops trailing slashes and returns what follows the last remaining
  slash. \<open>path.basename(p, suffix)\<close> also removes \<open>suffix\<close> when it is a proper suffix
  of that name. \<open>path.extname(p)\<close> is the part of the base name from its last dot on,
  and empty when there is no dot, when the last dot is the first character of the name,
  or when the name is \<open>..\<close>.
\<close>

definition stripTrailingSlashes :: "string \<Rightarrow> string" where
  "stripTrailingSlashes p = rev (dropWhile (\<lambda>c. c = CHR ''/'') (rev p))"

definition basename :: "string \<Rightarrow> string" where
  "basename p = rev (takeWhile (\<lambda>c. c \<noteq> CHR ''/'') (rev (stripTrailingSlashes p)))"

definition basename_suffix :: "string \<Rightarrow> string \<Rightarrow> string" where
  "basename_suffix p suf =
     (let b = basename p in
      if suf = [] \<or> length p < length suf then b
      else if suf = p then []
      else if endsWith b suf \<and> suf \<noteq> b then take (length b - length suf) b
      else b)"

definition extname :: "string \<Rightarrow> string" where
  "extname p =
     (let b = basename p;
          e = rev (takeWhile (\<lambda>c. c \<noteq> CHR ''.'') (rev b))
      in if CHR ''.'' \<notin> set b then []
         else if length b = Suc (length e) then []
         else if b = ''..'' then []
         else CHR ''.'' # e)"

text \<open>
  \<open>path.join\<close> concatenates its non-empty arguments with \<open>/\<close> and normalises the result:
  empty and \<open>.\<close> segments disappear, a \<open>..\<close> segment removes the segment before it (or
  is kept, for a relative path, when there is none to remove).
\<close>

fun normalizeSegments :: "bool \<Rightarrow> string list \<Rightarrow> string list \<Rightarrow> string list" where
  "normalizeSegments allowAboveRoot acc [] = rev acc"
| "normalizeSegments allowAboveRoot acc (seg # segs) =
     (if seg = [] \<or> seg = ''.'' then normalizeSegments allowAboveRoot acc segs
      else if seg = ''..'' then
        (case acc of
           [] \<Rightarrow> normalizeSegments allowAboveRoot (if allowAboveRoot then [''..''] else []) segs
         | prev # below \<Rightarrow>
             if prev = ''..'' then
               normalizeSegments allowAboveRoot (if allowAboveRoot then ''..'' # acc else acc) segs
             else normalizeSegments allowAboveRoot below segs)
      else normalizeSegments allowAboveRoot (seg # acc) segs)"

definition path_normalize :: "string \<Rightarrow> string" where
  "path_normalize p =
     (if p = [] then ''.''
      else
        let isAbsolute = (hd p = CHR ''/'');
            trailingSeparator = (last p = CHR ''/'');
            res = join_with ''/'' (normalizeSegments (\<not> isAbsolute) [] (split_on (CHR ''/'') p))
        in if res = [] then (if isAbsolute then ''/'' else if trailingSeparator then ''./'' else ''.'')
           else (if isAbsolute then ''/'' else []) @ res @ (if trailingSeparator then ''/'' else []))"

definition path_join :: "string list \<Rightarrow> string" where
  "path_join args =
     (case filter (\<lambda>a. a \<noteq> []) args of
        [] \<Rightarrow> ''.''
      | parts \<Rightarrow> path_normalize (join_with ''/'' parts))"

subsection \<open>\<open>Buffer.from(s).toString('base64')\<close>\<close>

definition base64Alphabet :: string where
  "base64Alphabet = ''ABCDEFGHIJKLMNOPQRSTUVWXYZabcdefghijklmnopqrstuvwxyz0123456789+/''"

definition b64 :: "nat \<Rightarrow> char" where
  "b64 n = base64Alphabet ! (n mod 64)"

fun base64Bytes :: "nat list \<Rightarrow> string" where
  "base64Bytes [] = []"
| "base64Bytes [a] = [b64 (a div 4), b64 ((a mod 4) * 16), CHR ''='', CHR ''='']"
| "base64Bytes [a, b] =
     [b64 (a div 4), b64 ((a mod 4) * 16 + b div 16), b64 ((b mod 16) * 4), CHR ''='']"
| "base64Bytes (a # b # c # rest) =
     [b64 (a div 4), b64 ((a mod 4) * 16 + b div 16), b64 ((b mod 16) * 4 + c div 64), b64 (c mod 64)]
     @ base64Bytes rest"

definition toBase64 :: "string \<Rightarrow> string" where
  "toBase64 s = base64Bytes (map of_char s)"

subsection \<open>The WHATWG \<open>URL\<close> class\<close>

text \<open>
  \<open>new URL(s)\<close> and \<open>new URL(s, base)\<close> belong to Node, not to this repository. The
  services only read the fields below from the object they return, so the parser is a
  parameter of the model: \<open>newURL L s = None\<close> stands for the \<open>TypeError\<close> the constructor
  throws. Every theorem stated for an arbitrary \<open>L\<close> holds for Node's parser.
\<close>

record URL =
  protocol :: string
  hostname :: string
  pathname :: string
  search :: string
  href :: string

record URLlib =
  newURL :: "string \<Rightarrow> URL option"
  newURLBase :: "string \<Rightarrow> string \<Rightarrow> URL option"

section \<open>Core data types (\<open>types/index.ts\<close>)\<close>

datatype ArchiveStatus = IN_PROGRESS | COMPLETED | FAILED | PARTIAL

datatype AssetType = HTML | CSS | JAVASCRIPT | IMAGE | FONT | OTHER

datatype ErrorType =
  NETWORK_ERROR | CONTENT_ERROR | STORAGE_ERROR | VALIDATION_ERROR | TIMEOUT_ERROR | PERMISSION_ERROR

record Asset =
  originalUrl :: string
  localPath :: string
  assetTy :: AssetType
  assetSize :: nat
  contentType :: string

record ArchivedPage =
  pageUrl :: string
  pagePath :: string
  title :: string
  assets :: "Asset list"
  links :: "string list"
  htmlContent :: "string option"

record ArchiveError =
  errorType :: ErrorType
  message :: string
  errorUrl :: "string option"
  recoverable :: bool

record Metadata =
  pageCount :: nat
  assetCount :: nat
  totalSize :: nat
  crawlDuration :: nat

record Archive =
  archiveId :: string
  archiveUrl :: string
  domain :: string
  timestamp :: nat
  status :: ArchiveStatus
  version :: nat
  metadata :: Metadata
  pages :: "ArchivedPage list"
  errors :: "ArchiveError list"

record CrawlerOptions =
  maxDepth :: nat
  maxPages :: nat
  timeout :: nat
  respectRobots :: bool

record CrawlResult =
  resultPages :: "ArchivedPage list"
  resultErrors :: "ArchiveError list"
  resultTotalSize :: nat
  duration :: nat

section \<open>URL utilities (\<open>utils/url-utils.ts\<close>)\<close>

definition isValidUrl :: "URLlib \<Rightarrow> string \<Rightarrow> bool" where
  "isValidUrl L urlString =
     (case newURL L urlString of
        None \<Rightarrow> False
      | Some u \<Rightarrow> protocol u = ''http:'' \<or> protocol u = ''https:'')"

definition extractDomain :: "URLlib \<Rightarrow> string \<Rightarrow> string option" where
  "extractDomain L urlString = map_option hostname (newURL L urlString)"

text \<open>
  \<open>normalizeUrl\<close> clears the fragment and serialises the URL again. A serialised URL
  contains \<open>#\<close> only in front of its fragment, so the result is \<open>href\<close> up to the first
  \<open>#\<close>.
\<close>

definition normalizeUrl :: "URLlib \<Rightarrow> string \<Rightarrow> string option" where
  "normalizeUrl L urlString =
     map_option (\<lambda>u. takeWhile (\<lambda>c. c \<noteq> CHR ''#'') (href u)) (newURL L urlString)"


section \<open>The reference rewriter (\<open>utils/url-rewriter.ts\<close>)\<close>

record UrlRewriteOptions =
  optArchiveId :: string
  baseUrl :: string
  archiveBasePath :: string

record AssetPathMapping =
  mapOriginalUrl :: string
  mapLocalPath :: string
  mapAssetType :: AssetType

record UrlRewriter =
  rwOptions :: UrlRewriteOptions
  assetMappings :: "string \<rightharpoonup> AssetPathMapping"

text \<open>The constructor: \<open>archiveBasePath\<close> defaults to \<open>/api/archives\<close>.\<close>

definition newUrlRewriter :: "string \<Rightarrow> string \<Rightarrow> string option \<Rightarrow> UrlRewriter" where
  "newUrlRewriter aid base basePath =
     \<lparr>rwOptions = \<lparr>optArchiveId = aid, baseUrl = base,
                  archiveBasePath = (case basePath of None \<Rightarrow> ''/api/archives'' | Some p \<Rightarrow> p)\<rparr>,
      assetMappings = Map.empty\<rparr>"

definition addAssetMapping :: "UrlRewriter \<Rightarrow> AssetPathMapping \<Rightarrow> UrlRewriter" where
  "addAssetMapping rw m = rw\<lparr>assetMappings := (assetMappings rw)(mapOriginalUrl m \<mapsto> m)\<rparr>"

definition addAssetMappings :: "UrlRewriter \<Rightarrow> AssetPathMapping list \<Rightarrow> UrlRewriter" where
  "addAssetMappings rw ms = foldl addAssetMapping rw ms"

definition isSpecialUrl :: "string \<Rightarrow> bool" where
  "isSpecialUrl url =
     (let trimmedUrl = toLowerCase (trim url) in
      startsWith trimmedUrl ''data:'' \<or>
      startsWith trimmedUrl ''blob:'' \<or>
      startsWith trimmedUrl ''javascript:'' \<or>
      startsWith trimmedUrl ''mailto:'' \<or>
      startsWith trimmedUrl ''tel:'' \<or>
      startsWith trimmedUrl ''#'' \<or>
      trimmedUrl = [])"

definition resolveUrl :: "URLlib \<Rightarrow> UrlRewriter \<Rightarrow> string \<Rightarrow> string" where
  "resolveUrl L rw url =
     (if startsWith url ''http://'' \<or> startsWith url ''https://'' then url
      else (case newURLBase L url (baseUrl (rwOptions rw)) of
              Some u \<Rightarrow> href u
            | None \<Rightarrow> url))"

definition isSameDomain :: "URLlib \<Rightarrow> UrlRewriter \<Rightarrow> string \<Rightarrow> bool" where
  "isSameDomain L rw url =
     (case newURL L url of
        None \<Rightarrow> False
      | Some urlObj \<Rightarrow>
          (case newURL L (baseUrl (rwOptions rw)) of
             None \<Rightarrow> False
           | Some baseUrlObj \<Rightarrow> hostname urlObj = hostname baseUrlObj))"

definition detectAssetType :: "string \<Rightarrow> string \<Rightarrow> AssetType" where
  "detectAssetType fileName pathName =
     (let ext = toLowerCase (extname fileName) in
      if ext = ''.css'' then CSS
      else if ext \<in> set [''.js'', ''.mjs'', ''.jsx''] then JAVASCRIPT
      else if ext \<in> set [''.jpg'', ''.jpeg'', ''.png'', ''.gif'', ''.svg'', ''.webp'', ''.bmp'', ''.ico'']
        then IMAGE
      else if ext \<in> set [''.woff'', ''.woff2'', ''.ttf'', ''.otf'', ''.eot''] then FONT
      else if ext \<in> set [''.html'', ''.htm''] then HTML
      else OTHER)"

fun rewriterAssetSubDirectory :: "AssetType \<Rightarrow> string" where
  "rewriterAssetSubDirectory CSS = ''css''"
| "rewriterAssetSubDirectory JAVASCRIPT = ''js''"
| "rewriterAssetSubDirectory IMAGE = ''images''"
| "rewriterAssetSubDirectory FONT = ''fonts''"
| "rewriterAssetSubDirectory HTML = ''pages''"
| "rewriterAssetSubDirectory OTHER = ''other''"

definition queryHash :: "string \<Rightarrow> string" where
  "queryHash q = take 8 (toBase64 q)"

definition fileNameOf :: "string \<Rightarrow> string" where
  "fileNameOf pathName = (let b = basename pathName in if b = [] then ''index'' else b)"

definition generateAssetPath :: "URLlib \<Rightarrow> string \<Rightarrow> string" where
  "generateAssetPath L url =
     (case newURL L url of
        None \<Rightarrow> ''assets/other/unknown''
      | Some urlObj \<Rightarrow>
          let fileName = fileNameOf (pathname urlObj);
              subDir = rewriterAssetSubDirectory (detectAssetType fileName (pathname urlObj));
              finalFileName =
                (if search urlObj \<noteq> [] then
                   let ext = extname fileName;
                       name = basename_suffix fileName ext
                   in name @ ''_'' @ queryHash (search urlObj) @ ext
                 else fileName)
          in path_join [''assets'', subDir, finalFileName])"

definition generatePagePath :: "URLlib \<Rightarrow> string \<Rightarrow> string" where
  "generatePagePath L url =
     (case newURL L url of
        None \<Rightarrow> ''index.html''
      | Some urlObj \<Rightarrow>
          let p = (if startsWith (pathname urlObj) ''/'' then drop 1 (pathname urlObj)
                   else pathname urlObj)
          in if p = [] \<or> p = ''/'' then ''index.html''
             else if endsWith p ''/'' then path_join [p, ''index.html'']
             else if extname p = [] then path_join [p, ''index.html'']
             else p)"

text \<open>
  \<open>rewriteUrl\<close>. Every call that can throw inside its \<open>try\<close> block (\<open>resolveUrl\<close>,
  \<open>isSameDomain\<close>, the two path generators) catches its own exception, so the outer
  \<open>catch\<close> is never reached and the function is total.
\<close>

definition contentPrefix :: "UrlRewriter \<Rightarrow> string" where
  "contentPrefix rw = archiveBasePath (rwOptions rw) @ ''/'' @ optArchiveId (rwOptions rw) @ ''/content/''"

definition rewriteUrl :: "URLlib \<Rightarrow> UrlRewriter \<Rightarrow> string \<Rightarrow> bool \<Rightarrow> string" where
  "rewriteUrl L rw url isPageLink =
     (if url = [] \<or> trim url = [] then url
      else if isSpecialUrl url then url
      else
        let resolvedUrl = resolveUrl L rw url in
        (case assetMappings rw resolvedUrl of
           Some mapping \<Rightarrow> contentPrefix rw @ mapLocalPath mapping
         | None \<Rightarrow>
             if isPageLink \<and> isSameDomain L rw resolvedUrl then
               contentPrefix rw @ ''pages/'' @ generatePagePath L resolvedUrl
             else if isSameDomain L rw resolvedUrl then
               contentPrefix rw @ generateAssetPath L resolvedUrl
             else url))"

section \<open>Asset file names in the file service (\<open>services/file-service.ts\<close>)\<close>

definition getCorrectExtension :: "AssetType option \<Rightarrow> string option \<Rightarrow> string" where
  "getCorrectExtension assetType fileName =
     (let original = (case fileName of
                        None \<Rightarrow> ''.bin''
                      | Some f \<Rightarrow> if extname f = [] then ''.bin'' else extname f)
      in case assetType of
           None \<Rightarrow> original
         | Some CSS \<Rightarrow> ''.css''
         | Some JAVASCRIPT \<Rightarrow> ''.js''
         | Some IMAGE \<Rightarrow>
             (case fileName of
                None \<Rightarrow> ''.png''
              | Some f \<Rightarrow>
                  let ext = toLowerCase (extname f) in
                  if ext \<in> set [''.jpg'', ''.jpeg'', ''.png'', ''.gif'', ''.svg'', ''.webp'', ''.bmp'', ''.ico'']
                  then ext else ''.png'')
         | Some FONT \<Rightarrow>
             (case fileName of
                None \<Rightarrow> ''.woff''
              | Some f \<Rightarrow>
                  let ext = toLowerCase (extname f) in
                  if ext \<in> set [''.woff'', ''.woff2'', ''.ttf'', ''.otf'', ''.eot'']
                  then ext else ''.woff'')
         | Some HTML \<Rightarrow> ''.html''
         | Some OTHER \<Rightarrow> original)"

text \<open>\<open>generateAssetFileName\<close> calls \<open>new URL(url)\<close> outside any \<open>try\<close>: \<open>None\<close> is its \<open>TypeError\<close>.\<close>

definition generateAssetFileName :: "URLlib \<Rightarrow> string \<Rightarrow> AssetType option \<Rightarrow> string option" where
  "generateAssetFileName L url assetType =
     (case newURL L url of
        None \<Rightarrow> None
      | Some urlObj \<Rightarrow>
          let fileName = fileNameOf (pathname urlObj);
              correctExtension = getCorrectExtension assetType (Some fileName)
          in if search urlObj \<noteq> [] then
               Some (basename_suffix fileName (extname fileName) @ ''_'' @ queryHash (search urlObj)
                     @ correctExtension)
             else if toLowerCase (extname fileName) = correctExtension then Some fileName
             else Some (basename_suffix fileName (extname fileName) @ correctExtension))"

fun fileServiceAssetSubDirectory :: "AssetType \<Rightarrow> string" where
  "fileServiceAssetSubDirectory CSS = ''css''"
| "fileServiceAssetSubDirectory JAVASCRIPT = ''js''"
| "fileServiceAssetSubDirectory IMAGE = ''images''"
| "fileServiceAssetSubDirectory FONT = ''fonts''"
| "fileServiceAssetSubDirectory HTML = ''other''"
| "fileServiceAssetSubDirectory OTHER = ''other''"

text \<open>The relative path \<open>saveAsset\<close> writes to and returns.\<close>

definition saveAssetRelativePath :: "URLlib \<Rightarrow> string \<Rightarrow> AssetType \<Rightarrow> string option" where
  "saveAssetRelativePath L url assetType =
     map_option (\<lambda>fileName. path_join [''assets'', fileServiceAssetSubDirectory assetType, fileName])
       (generateAssetFileName L url (Some assetType))"

section \<open>Page paths in the crawler (\<open>services/crawler-service.ts\<close>)\<close>

fun showNat :: "nat \<Rightarrow> string" where
  "showNat n =
     (if n < 10 then [''0123456789'' ! n]
      else showNat (n div 10) @ [''0123456789'' ! (n mod 10)])"

text \<open>\<open>now\<close> is the value of \<open>Date.now()\<close>, read only when the URL does not parse.\<close>

definition crawlerGeneratePagePath :: "URLlib \<Rightarrow> nat \<Rightarrow> string \<Rightarrow> string" where
  "crawlerGeneratePagePath L now url =
     (case newURL L url of
        None \<Rightarrow> ''page_'' @ showNat now @ ''.html''
      | Some urlObj \<Rightarrow>
          let p = pathname urlObj in
          if p = ''/'' \<or> p = [] then ''index.html''
          else if CHR ''.'' \<in> set p \<and> \<not> endsWith p ''/'' then
            (if startsWith p ''/'' then drop 1 p else p)
          else
            let q = (if endsWith p ''/'' then p @ ''index.html'' else p @ ''/index.html'')
            in if startsWith q ''/'' then drop 1 q else q)"

section \<open>A small URL parser for the worked examples\<close>

text \<open>
  The examples need one concrete parser. \<open>exampleLib\<close> reads URLs of the shape
  \<open>http(s)://host/path?query#fragment\<close> the way Node does (surrounding white space
  dropped, scheme and host in lower case, an empty path read as \<open>/\<close>) and rejects
  everything else; relative references are resolved when they are root-relative or a
  plain name. It is used in the examples only.
\<close>

definition exampleParse :: "string \<Rightarrow> URL option" where
  "exampleParse input =
     (let s = trim input;
          scheme = toLowerCase (takeWhile (\<lambda>c. c \<noteq> CHR '':'') s);
          rest = dropWhile (\<lambda>c. c \<noteq> CHR '':'') s;
          afterSlashes = drop 3 rest;
          host = toLowerCase (takeWhile (\<lambda>c. c \<notin> set ''/?#'') afterSlashes);
          r1 = dropWhile (\<lambda>c. c \<notin> set ''/?#'') afterSlashes;
          path0 = takeWhile (\<lambda>c. c \<notin> set ''?#'') r1;
          path1 = (if path0 = [] then ''/'' else path0);
          r2 = dropWhile (\<lambda>c. c \<notin> set ''?#'') r1;
          query = takeWhile (\<lambda>c. c \<noteq> CHR ''#'') r2;
          fragment = dropWhile (\<lambda>c. c \<noteq> CHR ''#'') r2
      in if (scheme = ''http'' \<or> scheme = ''https'') \<and> startsWith rest ''://'' \<and> host \<noteq> []
            \<and> list_all (\<lambda>c. c \<notin> set '' @:'') host
         then Some \<lparr>protocol = scheme @ '':'', hostname = host, pathname = path1,
                     search = (if query = ''?'' then [] else query),
                     href = scheme @ ''://'' @ host @ path1 @ query @ fragment\<rparr>
         else None)"

definition exampleParseBase :: "string \<Rightarrow> string \<Rightarrow> URL option" where
  "exampleParseBase input base =
     (case exampleParse base of
        None \<Rightarrow> None
      | Some b \<Rightarrow>
          (case exampleParse input of
             Some u \<Rightarrow> Some u
           | None \<Rightarrow>
               let origin = protocol b @ ''//'' @ hostname b;
                   dir = rev (dropWhile (\<lambda>c. c \<noteq> CHR ''/'') (rev (pathname b)))
               in if startsWith input ''/'' then exampleParse (origin @ input)
                  else if input \<noteq> [] \<and> list_all (\<lambda>c. c \<notin> set '':/?# '') input
                    then exampleParse (origin @ dir @ input)
                  else None))"

definition exampleLib :: URLlib where
  "exampleLib = \<lparr>newURL = exampleParse, newURLBase = exampleParseBase\<rparr>"

definition exampleRewriter :: UrlRewriter where
  "exampleRewriter =
     addAssetMappings (newUrlRewriter ''test-archive-123'' ''https://example.com'' None)
       [\<lparr>mapOriginalUrl = ''https://example.com/style.css'',
         mapLocalPath = ''assets/css/main_v2.css'', mapAssetType = CSS\<rparr>]"

section \<open>Extensions the file service keeps for a declared asset type\<close>


section \<open>The storage backend (\<open>services/file-service.ts\<close>)\<close>

text \<open>
  The directory tree under \<open>baseStoragePath\<close>: one entry per archive id, holding the
  manifest (\<open>None\<close> when \<open>manifest.json\<close> is missing or unreadable) and the files written
  below it, keyed by their path relative to the archive directory.

  Every operation that touches the disk takes the outcome of its file-system calls as an
  argument: \<open>None\<close> when they succeeded, \<open>Some msg\<close> when one of them threw an error with
  message \<open>msg\<close>. The result is \<open>Inl\<close> of the message of the \<open>Error\<close> the operation throws,
  or \<open>Inr\<close> of what it returns together with the new tree.
\<close>

record ArchiveDir =
  manifest :: "Archive option"
  files :: "(string \<times> string) list"

type_synonym Storage = "(string \<times> ArchiveDir) list"

definition initializeArchiveStorage :: "string option \<Rightarrow> Storage \<Rightarrow> string \<Rightarrow> string + Storage" where
  "initializeArchiveStorage io st aid =
     (case io of
        Some msg \<Rightarrow> Inl (''Failed to initialize archive storage: '' @ msg)
      | None \<Rightarrow>
          Inr (case map_of st aid of
                 None \<Rightarrow> st @ [(aid, \<lparr>manifest = None, files = []\<rparr>)]
               | Some d \<Rightarrow> st))"

text \<open>\<open>saveHtml\<close> and \<open>saveAsset\<close> create missing directories before they write.\<close>

definition writeArchiveFile :: "Storage \<Rightarrow> string \<Rightarrow> string \<Rightarrow> string \<Rightarrow> Storage" where
  "writeArchiveFile st aid relativePath content =
     (case map_of st aid of
        None \<Rightarrow> st @ [(aid, \<lparr>manifest = None, files = [(relativePath, content)]\<rparr>)]
      | Some d \<Rightarrow> AList.update aid (d\<lparr>files := AList.update relativePath content (files d)\<rparr>) st)"

definition saveHtml :: "string option \<Rightarrow> Storage \<Rightarrow> string \<Rightarrow> string \<Rightarrow> string \<Rightarrow> string + Storage" where
  "saveHtml io st content pagePathArg aid =
     (case io of
        Some msg \<Rightarrow> Inl (''Failed to save HTML content: '' @ msg)
      | None \<Rightarrow> Inr (writeArchiveFile st aid (path_join [''pages'', pagePathArg]) content))"

text \<open>
  \<open>saveAsset\<close> computes the file name before its \<open>try\<close> block, so an asset URL that does
  not parse throws the constructor's \<open>TypeError\<close> (message \<open>Invalid URL\<close>) unwrapped.
\<close>

definition saveAsset ::
  "URLlib \<Rightarrow> string option \<Rightarrow> Storage \<Rightarrow> string \<Rightarrow> string \<Rightarrow> string \<Rightarrow> AssetType
     \<Rightarrow> string + (string \<times> Storage)" where
  "saveAsset L io st url content aid assetType =
     (case saveAssetRelativePath L url assetType of
        None \<Rightarrow> Inl ''Invalid URL''
      | Some relativePath \<Rightarrow>
          (case io of
             Some msg \<Rightarrow> Inl (''Failed to save asset: '' @ msg)
           | None \<Rightarrow> Inr (relativePath, writeArchiveFile st aid relativePath content)))"

text \<open>\<open>saveArchiveMetadata\<close> writes \<open>manifest.json\<close> without creating the directory.\<close>

definition saveArchiveMetadata :: "string option \<Rightarrow> Storage \<Rightarrow> Archive \<Rightarrow> string + Storage" where
  "saveArchiveMetadata io st archive =
     (case io of
        Some msg \<Rightarrow> Inl (''Failed to save archive metadata: '' @ msg)
      | None \<Rightarrow>
          (case map_of st (archiveId archive) of
             None \<Rightarrow> Inl ''Failed to save archive metadata: ENOENT: no such file or directory''
           | Some d \<Rightarrow> Inr (AList.update (archiveId archive) (d\<lparr>manifest := Some archive\<rparr>) st)))"

definition loadArchiveMetadata :: "Storage \<Rightarrow> string \<Rightarrow> string + Archive" where
  "loadArchiveMetadata st aid =
     (case map_of st aid of
        None \<Rightarrow> Inl ''Failed to load archive metadata: ENOENT: no such file or directory''
      | Some d \<Rightarrow>
          (case manifest d of
             None \<Rightarrow> Inl ''Failed to load archive metadata: manifest.json cannot be read''
           | Some archive \<Rightarrow> Inr archive))"

definition listArchives :: "string option \<Rightarrow> Storage \<Rightarrow> string + string list" where
  "listArchives io st =
     (case io of
        Some msg \<Rightarrow> Inl (''Failed to list archives: '' @ msg)
      | None \<Rightarrow> Inr (map fst st))"

definition fileServiceDeleteArchive :: "string option \<Rightarrow> Storage \<Rightarrow> string \<Rightarrow> string + Storage" where
  "fileServiceDeleteArchive io st aid =
     (case io of
        Some msg \<Rightarrow> Inl (''Failed to delete archive: '' @ msg)
      | None \<Rightarrow> Inr (AList.delete aid st))"

definition archiveExists :: "Storage \<Rightarrow> string \<Rightarrow> bool" where
  "archiveExists st aid = (map_of st aid \<noteq> None)"

section \<open>The archive orchestrator (\<open>services/archive-service.ts\<close>)\<close>

record ArchiveProgress =
  progArchiveId :: string
  progUrl :: string
  progStatus :: ArchiveStatus
  pagesDiscovered :: nat
  pagesCrawled :: nat
  assetsDownloaded :: nat
  progTotalSize :: nat
  progErrors :: "ArchiveError list"
  startTime :: nat
  currentUrl :: "string option"

record PartialCrawlerOptions =
  optMaxDepth :: "nat option"
  optMaxPages :: "nat option"
  optTimeout :: "nat option"
  optRespectRobots :: "bool option"

definition mergeCrawlerOptions :: "CrawlerOptions \<Rightarrow> PartialCrawlerOptions \<Rightarrow> CrawlerOptions" where
  "mergeCrawlerOptions base override =
     \<lparr>maxDepth = (case optMaxDepth override of None \<Rightarrow> maxDepth base | Some v \<Rightarrow> v),
      maxPages = (case optMaxPages override of None \<Rightarrow> maxPages base | Some v \<Rightarrow> v),
      timeout = (case optTimeout override of None \<Rightarrow> timeout base | Some v \<Rightarrow> v),
      respectRobots = (case optRespectRobots override of None \<Rightarrow> respectRobots base | Some v \<Rightarrow> v)\<rparr>"

text \<open>
  The service object: the storage its file service writes to, the in-memory registry
  \<open>activeArchives\<close> (a \<open>Map\<close>, kept in insertion order), and its configuration.
\<close>

record ArchiveService =
  storage :: Storage
  activeArchives :: "(string \<times> ArchiveProgress) list"
  maxConcurrentArchives :: nat
  defaultCrawlerOptions :: CrawlerOptions

text \<open>The constructor: \<open>options.maxConcurrentArchives || 3\<close> and the default crawler options.\<close>

definition newArchiveService ::
  "nat option \<Rightarrow> PartialCrawlerOptions option \<Rightarrow> Storage \<Rightarrow> ArchiveService" where
  "newArchiveService maxConcurrent crawlerDefaults st =
     \<lparr>storage = st,
      activeArchives = [],
      maxConcurrentArchives = (case maxConcurrent of None \<Rightarrow> 3 | Some n \<Rightarrow> if n = 0 then 3 else n),
      defaultCrawlerOptions =
        (let builtin = \<lparr>maxDepth = 3, maxPages = 1000, timeout = 15000, respectRobots = True\<rparr>
         in case crawlerDefaults of None \<Rightarrow> builtin | Some d \<Rightarrow> mergeCrawlerOptions builtin d)\<rparr>"

definition getArchives :: "string option \<Rightarrow> ArchiveService \<Rightarrow> string + Archive list" where
  "getArchives listIo s =
     (case listArchives listIo (storage s) of
        Inl msg \<Rightarrow> Inl (''Failed to list archives: '' @ msg)
      | Inr ids \<Rightarrow>
          Inr (sort_key (\<lambda>a. - int (timestamp a))
                 (List.map_filter
                    (\<lambda>aid. case loadArchiveMetadata (storage s) aid of
                              Inl msg \<Rightarrow> None
                            | Inr archive \<Rightarrow> Some archive)
                    ids)))"

definition getArchiveVersions ::
  "URLlib \<Rightarrow> string option \<Rightarrow> ArchiveService \<Rightarrow> string \<Rightarrow> string + Archive list" where
  "getArchiveVersions L listIo s url =
     (case normalizeUrl L url of
        None \<Rightarrow> Inl (''Failed to get archive versions: Invalid URL: '' @ url)
      | Some normalizedUrl \<Rightarrow>
          if normalizedUrl = [] then Inl (''Failed to get archive versions: Invalid URL: '' @ url)
          else
            (case getArchives listIo s of
               Inl msg \<Rightarrow> Inl (''Failed to get archive versions: '' @ msg)
             | Inr allArchives \<Rightarrow>
                 Inr (sort_key (\<lambda>a. - int (version a))
                        (filter (\<lambda>a. normalizeUrl L (archiveUrl a) = Some normalizedUrl) allArchives))))"

text \<open>\<open>Math.max(...xs)\<close> over version numbers; it is only called on a non-empty list.\<close>

definition mathMax :: "nat list \<Rightarrow> nat" where
  "mathMax xs = foldr max xs 0"

definition getLatestVersionNumber :: "URLlib \<Rightarrow> string option \<Rightarrow> ArchiveService \<Rightarrow> string \<Rightarrow> nat" where
  "getLatestVersionNumber L listIo s url =
     (case getArchiveVersions L listIo s url of
        Inl msg \<Rightarrow> 0
      | Inr versions \<Rightarrow> if versions \<noteq> [] then mathMax (map version versions) else 0)"

text \<open>\<open>createArchive\<close> of \<open>utils/validation.ts\<close>, which builds the record.\<close>

definition validationCreateArchive :: "URLlib \<Rightarrow> string \<Rightarrow> string \<Rightarrow> nat \<Rightarrow> string + Archive" where
  "validationCreateArchive L url aid now =
     (if \<not> isValidUrl L url then Inl ''Invalid URL provided''
      else
        (case extractDomain L url of
           None \<Rightarrow> Inl ''Could not extract domain from URL''
         | Some d \<Rightarrow>
             if d = [] then Inl ''Could not extract domain from URL''
             else Inr \<lparr>archiveId = aid, archiveUrl = url, domain = d, timestamp = now,
                       status = IN_PROGRESS, version = 1,
                       metadata = \<lparr>pageCount = 0, assetCount = 0, totalSize = 0, crawlDuration = 0\<rparr>,
                       pages = [], errors = []\<rparr>))"

text \<open>
  \<open>createArchive\<close>, up to the point where it returns the record and the background run
  has been launched. \<open>aid\<close> is the identifier \<open>uuidv4()\<close> returned, \<open>now\<close> the clock, and
  the three outcomes are those of listing the storage directory, of creating the
  archive's directories and of writing the first manifest.
\<close>

record CreateIo =
  listIo :: "string option"
  initIo :: "string option"
  saveIo :: "string option"

definition limitMessage :: "nat \<Rightarrow> string" where
  "limitMessage cap =
     ''Maximum concurrent archives limit reached ('' @ showNat cap
       @ ''). Please wait for existing archives to complete.''"

definition createArchive ::
  "URLlib \<Rightarrow> CreateIo \<Rightarrow> ArchiveService \<Rightarrow> string \<Rightarrow> string \<Rightarrow> nat
     \<Rightarrow> (string + Archive) \<times> ArchiveService" where
  "createArchive L io s url aid now =
     (case normalizeUrl L url of
        None \<Rightarrow> (Inl (''Invalid URL: '' @ url), s)
      | Some normalizedUrl \<Rightarrow>
          if normalizedUrl = [] then (Inl (''Invalid URL: '' @ url), s)
          else if (case extractDomain L normalizedUrl of None \<Rightarrow> True | Some d \<Rightarrow> d = []) then
            (Inl (''Cannot extract domain from URL: '' @ url), s)
          else if maxConcurrentArchives s \<le> length (activeArchives s) then
            (Inl (limitMessage (maxConcurrentArchives s)), s)
          else if find (\<lambda>p. progUrl p = normalizedUrl \<and> progStatus p = IN_PROGRESS)
                    (map snd (activeArchives s)) \<noteq> None then
            (Inl (''Archive for '' @ normalizedUrl @ '' is already in progress''), s)
          else
            let latestVersion = getLatestVersionNumber L (listIo io) s normalizedUrl;
                nextVersion = latestVersion + 1
            in (case validationCreateArchive L normalizedUrl aid now of
                  Inl msg \<Rightarrow> (Inl msg, s)
                | Inr created \<Rightarrow>
                    let archive = created\<lparr>version := nextVersion\<rparr>;
                        progress = \<lparr>progArchiveId = aid, progUrl = normalizedUrl,
                                    progStatus = IN_PROGRESS, pagesDiscovered = 0, pagesCrawled = 0,
                                    assetsDownloaded = 0, progTotalSize = 0, progErrors = [],
                                    startTime = now, currentUrl = None\<rparr>;
                        s1 = s\<lparr>activeArchives := AList.update aid progress (activeArchives s)\<rparr>
                    in (case initializeArchiveStorage (initIo io) (storage s1) aid of
                          Inl msg \<Rightarrow>
                            (Inl (''Failed to create archive: '' @ msg),
                             s1\<lparr>activeArchives := AList.delete aid (activeArchives s1)\<rparr>)
                        | Inr st1 \<Rightarrow>
                            (case saveArchiveMetadata (saveIo io) st1 archive of
                               Inl msg \<Rightarrow>
                                 (Inl (''Failed to create archive: '' @ msg),
                                  s1\<lparr>storage := st1,
                                     activeArchives := AList.delete aid (activeArchives s1)\<rparr>)
                             | Inr st2 \<Rightarrow> (Inr archive, s1\<lparr>storage := st2\<rparr>)))))"

definition deleteArchive ::
  "string option \<Rightarrow> ArchiveService \<Rightarrow> string \<Rightarrow> (string + unit) \<times> ArchiveService" where
  "deleteArchive io s aid =
     (if map_of (activeArchives s) aid \<noteq> None then
        (Inl (''Cannot delete archive '' @ aid @ '': archiving in progress''), s)
      else
        (case fileServiceDeleteArchive io (storage s) aid of
           Inl msg \<Rightarrow> (Inl (''Failed to delete archive: '' @ msg), s)
         | Inr st \<Rightarrow> (Inr (), s\<lparr>storage := st\<rparr>)))"

definition getArchiveProgress :: "ArchiveService \<Rightarrow> string \<Rightarrow> ArchiveProgress option" where
  "getArchiveProgress s aid = map_of (activeArchives s) aid"

definition getActiveArchives :: "ArchiveService \<Rightarrow> ArchiveProgress list" where
  "getActiveArchives s = map snd (activeArchives s)"

subsection \<open>The background run\<close>

text \<open>
  What the run receives from outside the service while it executes:
  \<^item> the settled value of \<open>Promise.race([crawlSite(...), timeoutPromise])\<close>: the
    ten-minute timer rejects with \<open>archiveTimeoutMessage\<close> when it fires first; otherwise
    the crawler's own outcome counts, \<open>Inl\<close> of the message it rejected with or \<open>Inr\<close> of
    its result (the crawler is an injected collaborator of the service);
  \<^item> the last progress report the crawler delivered before the race settled;
  \<^item> per asset, in the order of \<open>allAssets\<close>: the HTTP outcome of the download, the
    text the rewriter returns for a style sheet (\<open>None\<close> when rewriting throws) and the
    outcomes of the two file writes;
  \<^item> per page: the HTML the rewriter returns and the outcome of the file write;
  \<^item> the outcomes of the two manifest writes, and the clock.

  The downloads are started together and awaited in batches of five; the model runs
  them one after the other in list order, which is one of the possible schedules.
\<close>

datatype DownloadResult =
  Downloaded string
| DownloadTimeout
| DownloadHttpError nat string
| DownloadNetworkError string

record AssetIo =
  download :: DownloadResult
  cssRewrite :: "string option"
  saveAssetIo :: "string option"
  fallbackIo :: "string option"

record PageIo =
  rewrittenHtml :: string
  saveHtmlIo :: "string option"

record ArchivingEnv =
  deadlineFirst :: bool
  crawlOutcome :: "string + CrawlResult"
  lastProgressReport :: "(nat \<times> nat \<times> string option) option"
  assetIo :: "nat \<Rightarrow> AssetIo"
  pageIo :: "nat \<Rightarrow> PageIo"
  finalSaveIo :: "string option"
  failureSaveIo :: "string option"
  finishTime :: nat

definition archiveTimeoutMessage :: string where
  "archiveTimeoutMessage = ''Archive process timed out after 10 minutes''"

definition raceOutcome :: "ArchivingEnv \<Rightarrow> string + CrawlResult" where
  "raceOutcome env = (if deadlineFirst env then Inl archiveTimeoutMessage else crawlOutcome env)"

definition downloadAssetContent :: "DownloadResult \<Rightarrow> string \<Rightarrow> string + string" where
  "downloadAssetContent r url =
     (case r of
        Downloaded bytes \<Rightarrow> Inr bytes
      | DownloadTimeout \<Rightarrow> Inl (''Download timeout for '' @ url)
      | DownloadHttpError code statusText \<Rightarrow>
          Inl (''HTTP '' @ showNat code @ '': '' @ statusText @ '' for '' @ url)
      | DownloadNetworkError msg \<Rightarrow> Inl (''Network error downloading '' @ url @ '': '' @ msg))"

definition fallbackContent :: "string \<Rightarrow> string" where
  "fallbackContent url = ''/* Failed to load asset: '' @ url @ '' */''"

definition downloadError :: "string \<Rightarrow> string \<Rightarrow> ArchiveError" where
  "downloadError url msg =
     \<lparr>errorType = STORAGE_ERROR,
      message = ''Failed to download asset '' @ url @ '': '' @ msg,
      errorUrl = Some url,
      recoverable = True\<rparr>"

text \<open>The body of the \<open>try\<close> block of one download: the stored path, the size and the new tree.\<close>

definition tryDownload ::
  "URLlib \<Rightarrow> string \<Rightarrow> AssetIo \<Rightarrow> Storage \<Rightarrow> Asset \<Rightarrow> string + (string \<times> nat \<times> Storage)" where
  "tryDownload L aid aio st asset =
     (case downloadAssetContent (download aio) (originalUrl asset) of
        Inl msg \<Rightarrow> Inl msg
      | Inr downloaded \<Rightarrow>
          let assetContent =
                (if assetTy asset = CSS \<and> downloaded \<noteq> [] then
                   (case cssRewrite aio of Some css \<Rightarrow> css | None \<Rightarrow> downloaded)
                 else downloaded)
          in (case saveAsset L (saveAssetIo aio) st (originalUrl asset) assetContent aid (assetTy asset) of
                Inl msg \<Rightarrow> Inl msg
              | Inr (savedPath, st') \<Rightarrow> Inr (savedPath, length assetContent, st')))"

definition downloadAsset ::
  "URLlib \<Rightarrow> string \<Rightarrow> AssetIo \<Rightarrow> Storage \<times> ArchiveProgress \<Rightarrow> Asset
     \<Rightarrow> Asset \<times> (Storage \<times> ArchiveProgress)" where
  "downloadAsset L aid aio sp asset =
     (case tryDownload L aid aio (fst sp) asset of
        Inr (savedPath, n, st') \<Rightarrow>
          (asset\<lparr>localPath := savedPath, assetSize := n\<rparr>,
           (st', (snd sp)\<lparr>assetsDownloaded := assetsDownloaded (snd sp) + 1,
                         progTotalSize := progTotalSize (snd sp) + n\<rparr>))
      | Inl msg \<Rightarrow>
          let progress = (snd sp)\<lparr>progErrors :=
                            progErrors (snd sp) @ [downloadError (originalUrl asset) msg]\<rparr>
          in (case saveAsset L (fallbackIo aio) (fst sp) (originalUrl asset)
                     (fallbackContent (originalUrl asset)) aid (assetTy asset) of
                Inr (savedPath, st') \<Rightarrow>
                  (asset\<lparr>localPath := savedPath,
                         assetSize := length (fallbackContent (originalUrl asset))\<rparr>,
                   (st', progress))
              | Inl fallbackError \<Rightarrow> (asset, (fst sp, progress))))"

fun downloadAssets ::
  "URLlib \<Rightarrow> string \<Rightarrow> (nat \<Rightarrow> AssetIo) \<Rightarrow> nat \<Rightarrow> Asset list \<Rightarrow> Storage \<times> ArchiveProgress
     \<Rightarrow> Asset list \<times> (Storage \<times> ArchiveProgress)" where
  "downloadAssets L aid io i [] sp = ([], sp)"
| "downloadAssets L aid io i (asset # rest) sp =
     (let (asset', sp') = downloadAsset L aid (io i) sp asset;
          (rest', sp'') = downloadAssets L aid io (Suc i) rest sp'
      in (asset' # rest', sp''))"

text \<open>
  The assets are the objects the pages hold, updated in place; after the downloads each
  page sees its own assets again.
\<close>

fun reassignAssets :: "ArchivedPage list \<Rightarrow> Asset list \<Rightarrow> ArchivedPage list" where
  "reassignAssets [] downloaded = []"
| "reassignAssets (page # rest) downloaded =
     page\<lparr>assets := take (length (assets page)) downloaded\<rparr>
       # reassignAssets rest (drop (length (assets page)) downloaded)"

definition processPage ::
  "PageIo \<Rightarrow> Storage \<Rightarrow> ArchivedPage \<Rightarrow> string \<Rightarrow> string + (ArchivedPage \<times> Storage)" where
  "processPage pio st page aid =
     (case saveHtml (saveHtmlIo pio) st (rewrittenHtml pio) (pagePath page) aid of
        Inl msg \<Rightarrow> Inl msg
      | Inr st' \<Rightarrow> Inr (page\<lparr>htmlContent := None\<rparr>, st'))"

definition pageError :: "string \<Rightarrow> string \<Rightarrow> ArchiveError" where
  "pageError url msg =
     \<lparr>errorType = STORAGE_ERROR,
      message = ''Failed to process page '' @ url @ '': '' @ msg,
      errorUrl = Some url,
      recoverable = False\<rparr>"

fun processPages ::
  "(nat \<Rightarrow> PageIo) \<Rightarrow> string \<Rightarrow> nat \<Rightarrow> ArchivedPage list \<Rightarrow> Storage \<times> ArchiveProgress
     \<Rightarrow> ArchivedPage list \<times> (Storage \<times> ArchiveProgress)" where
  "processPages io aid i [] sp = ([], sp)"
| "processPages io aid i (page # rest) sp =
     (case processPage (io i) (fst sp) page aid of
        Inr (processedPage, st') \<Rightarrow>
          (let (rest', sp') =
                 processPages io aid (Suc i) rest
                   (st', (snd sp)\<lparr>pagesCrawled := pagesCrawled (snd sp) + 1\<rparr>)
           in (processedPage # rest', sp'))
      | Inl msg \<Rightarrow>
          processPages io aid (Suc i) rest
            (fst sp, (snd sp)\<lparr>progErrors := progErrors (snd sp) @ [pageError (pageUrl page) msg]\<rparr>))"

definition isTimeoutMessage :: "string \<Rightarrow> bool" where
  "isTimeoutMessage msg = (str_includes msg ''timeout'' \<or> str_includes msg ''timed out'')"

definition failureError :: "string \<Rightarrow> ArchiveError" where
  "failureError msg =
     \<lparr>errorType = (if isTimeoutMessage msg then TIMEOUT_ERROR else NETWORK_ERROR),
      message = (if isTimeoutMessage msg then ''Archive partially completed due to timeout: '' @ msg
                 else ''Archive failed: '' @ msg),
      errorUrl = None,
      recoverable = False\<rparr>"

text \<open>The \<open>catch\<close> block of \<open>performArchiving\<close>; a manifest write that fails there is only logged.\<close>

definition archivingFailed ::
  "ArchivingEnv \<Rightarrow> ArchiveService \<Rightarrow> Archive \<Rightarrow> Storage \<Rightarrow> ArchiveProgress \<Rightarrow> string
     \<Rightarrow> ArchiveService" where
  "archivingFailed env s archive st progress msg =
     (let progress' = progress\<lparr>progStatus := (if isTimeoutMessage msg then PARTIAL else FAILED),
                               progErrors := progErrors progress @ [failureError msg]\<rparr>;
          finalArchive = archive\<lparr>status := progStatus progress',
                                 errors := progErrors progress',
                                 metadata := \<lparr>pageCount = pagesCrawled progress',
                                              assetCount = assetsDownloaded progress',
                                              totalSize = progTotalSize progress',
                                              crawlDuration = finishTime env - startTime progress'\<rparr>\<rparr>;
          st' = (case saveArchiveMetadata (failureSaveIo env) st finalArchive of
                   Inr saved \<Rightarrow> saved
                 | Inl saveError \<Rightarrow> st)
      in s\<lparr>storage := st',
            activeArchives := AList.update (archiveId archive) progress' (activeArchives s)\<rparr>)"

text \<open>
  \<open>performArchiving\<close>. The registry entry stays in place when the run ends; the timer of
  the \<open>finally\<close> block removes it sixty seconds later (\<open>retireProgress\<close>). The crawler
  options only travel to the crawler, whose outcome is given, so they do not occur here.
\<close>

definition performArchiving ::
  "URLlib \<Rightarrow> ArchivingEnv \<Rightarrow> ArchiveService \<Rightarrow> Archive \<Rightarrow> ArchiveService" where
  "performArchiving L env s archive =
     (case map_of (activeArchives s) (archiveId archive) of
        None \<Rightarrow> s
      | Some registered \<Rightarrow>
          let progress0 =
                (case lastProgressReport env of
                   None \<Rightarrow> registered
                 | Some (found, crawled, current) \<Rightarrow>
                     registered\<lparr>pagesDiscovered := found, pagesCrawled := crawled,
                                currentUrl := current\<rparr>)
          in (case raceOutcome env of
                Inl msg \<Rightarrow> archivingFailed env s archive (storage s) progress0 msg
              | Inr crawlResult \<Rightarrow>
                  let progress1 = progress0\<lparr>pagesDiscovered := length (resultPages crawlResult),
                                            progErrors := progErrors progress0 @ resultErrors crawlResult\<rparr>;
                      allAssets = concat (map assets (resultPages crawlResult));
                      (downloaded, sp1) =
                        downloadAssets L (archiveId archive) (assetIo env) 0 allAssets
                          (storage s, progress1);
                      (processedPages, sp2) =
                        processPages (pageIo env) (archiveId archive) 0
                          (reassignAssets (resultPages crawlResult) downloaded) sp1;
                      finalArchive =
                        archive\<lparr>status := (if progErrors (snd sp2) \<noteq> [] then PARTIAL else COMPLETED),
                                pages := processedPages,
                                errors := progErrors (snd sp2),
                                metadata := \<lparr>pageCount = length processedPages,
                                             assetCount = length allAssets,
                                             totalSize = progTotalSize (snd sp2),
                                             crawlDuration = duration crawlResult\<rparr>\<rparr>
                  in (case saveArchiveMetadata (finalSaveIo env) (fst sp2) finalArchive of
                        Inr saved \<Rightarrow>
                          s\<lparr>storage := saved,
                            activeArchives :=
                              AList.update (archiveId archive)
                                ((snd sp2)\<lparr>progStatus := status finalArchive\<rparr>)
                                (activeArchives s)\<rparr>
                      | Inl msg \<Rightarrow> archivingFailed env s archive (fst sp2) (snd sp2) msg)))"

definition retireProgress :: "ArchiveService \<Rightarrow> string \<Rightarrow> ArchiveService" where
  "retireProgress s aid = s\<lparr>activeArchives := AList.delete aid (activeArchives s)\<rparr>"

section \<open>Notions used to state the orchestrator's properties\<close>





text \<open>The number of registry entries whose status is \<open>IN_PROGRESS\<close>.\<close>

definition inProgressCount :: "ArchiveService \<Rightarrow> nat" where
  "inProgressCount s = length (filter (\<lambda>p. progStatus p = IN_PROGRESS) (getActiveArchives s))"



section \<open>A worked run of the orchestrator\<close>

text \<open>
  A service with a cap of two, as in the repository's tests; a disk on which every write
  succeeds; and a background run whose crawl returns no pages and no errors.
\<close>

definition exampleService :: ArchiveService where
  "exampleService = newArchiveService (Some 2) None []"

definition okIo :: CreateIo where
  "okIo = \<lparr>listIo = None, initIo = None, saveIo = None\<rparr>"

definition emptyCrawl :: CrawlResult where
  "emptyCrawl = \<lparr>resultPages = [], resultErrors = [], resultTotalSize = 0, duration = 1000\<rparr>"

definition okAssetIo :: AssetIo where
  "okAssetIo = \<lparr>download = Downloaded ''body { color: red; }'', cssRewrite = None,
                saveAssetIo = None, fallbackIo = None\<rparr>"

definition okPageIo :: PageIo where
  "okPageIo = \<lparr>rewrittenHtml = ''<html></html>'', saveHtmlIo = None\<rparr>"

definition quietEnv :: ArchivingEnv where
  "quietEnv =
     \<lparr>deadlineFirst = False, crawlOutcome = Inr emptyCrawl, lastProgressReport = None,
      assetIo = (\<lambda>i. okAssetIo), pageIo = (\<lambda>i. okPageIo),
      finalSaveIo = None, failureSaveIo = None, finishTime = 5000\<rparr>"

text \<open>Create an archive, let its background run finish, and let the grace period pass.\<close>

definition archiveToCompletion ::
  "ArchiveService \<Rightarrow> string \<Rightarrow> string \<Rightarrow> nat \<Rightarrow> ArchiveService" where
  "archiveToCompletion s url aid now =
     (case createArchive exampleLib okIo s url aid now of
        (Inl msg, s1) \<Rightarrow> s1
      | (Inr archive, s1) \<Rightarrow> retireProgress (performArchiving exampleLib quietEnv s1 archive) aid)"

definition twoRunning :: ArchiveService where
  "twoRunning =
     snd (createArchive exampleLib okIo
            (snd (createArchive exampleLib okIo exampleService ''https://example1.com'' ''id-1'' 100))
            ''https://example2.com'' ''id-2'' 200)"

definition twoVersions :: ArchiveService where
  "twoVersions =
     archiveToCompletion (archiveToCompletion exampleService ''https://example.com'' ''id-v1'' 100)
       ''https://example.com'' ''id-v2'' 200"

definition justCompleted :: ArchiveService where
  "justCompleted =
     (case createArchive exampleLib okIo exampleService ''https://example.com'' ''id-v1'' 100 of
        (Inl msg, s1) \<Rightarrow> s1
      | (Inr archive, s1) \<Rightarrow> performArchiving exampleLib quietEnv s1 archive)"

definition afterDeletingLatest :: ArchiveService where
  "afterDeletingLatest = snd (deleteArchive None twoVersions ''id-v2'')"

text \<open>One archive whose background run has not finished yet, and the record it runs on.\<close>

definition exampleArchive :: Archive where
  "exampleArchive =
     \<lparr>archiveId = ''id-v1'', archiveUrl = ''https://example.com/'', domain = ''example.com'',
      timestamp = 100, status = IN_PROGRESS, version = 1,
      metadata = \<lparr>pageCount = 0, assetCount = 0, totalSize = 0, crawlDuration = 0\<rparr>,
      pages = [], errors = []\<rparr>"

definition oneRunning :: ArchiveService where
  "oneRunning = snd (createArchive exampleLib okIo exampleService ''https://example.com'' ''id-v1'' 100)"

text \<open>A run whose crawl rejects with \<open>msg\<close>, on a disk whose last manifest write has outcome \<open>io\<close>.\<close>

definition crawlFails :: "string \<Rightarrow> string option \<Rightarrow> ArchivingEnv" where
  "crawlFails msg io = quietEnv\<lparr>crawlOutcome := Inl msg, failureSaveIo := io\<rparr>"

section \<open>The discovery engine (\<open>services/crawler-service.ts\<close>)\<close>

























section \<open>Properties of the reference rewriter\<close>

lemma isSpecialUrl_blank: "trim url = [] \<Longrightarrow> isSpecialUrl url"
  by (simp add: isSpecialUrl_def toLowerCase_def)

lemma trim_Nil: "trim [] = []"
  by (simp add: trim_def)

lemma str_includes_refl: "str_includes p p"
  by (cases p) (simp_all add: startsWith_def)

lemma startsWith_append: "startsWith s p \<Longrightarrow> startsWith (s @ t) p"
  by (auto simp: startsWith_def take_append split: if_splits)
     (metis append_eq_conv_conj append_take_drop_id take_all_iff linorder_le_cases)

lemma isSameDomain_parse_fail:
  "newURL L u = None \<or> newURL L (baseUrl (rwOptions rw)) = None \<Longrightarrow> \<not> isSameDomain L rw u"
  by (auto simp: isSameDomain_def split: option.splits)

text \<open>
  Claim C7. When the URL is not one of the inputs that are returned untouched (empty or
  special-scheme) and a mapping is registered for its resolved form (the URL itself when
  it starts with \<open>http://\<close> or \<open>https://\<close>, otherwise its resolution against the base
  URL), \<open>rewriteUrl\<close> returns \<open>{archiveBasePath}/{archiveId}/content/{mapping.localPath}\<close>,
  whatever the value of \<open>isPageLink\<close>: the mapping is looked up before the page-link test.
\<close>

theorem rewriteUrl_uses_mapping_in_both_modes:
  assumes "\<not> isSpecialUrl url"
      and "assetMappings rw (resolveUrl L rw url) = Some m"
  shows "rewriteUrl L rw url isPageLink =
           archiveBasePath (rwOptions rw) @ ''/'' @ optArchiveId (rwOptions rw) @ ''/content/''
             @ mapLocalPath m"
proof -
  from assms(1) have "trim url \<noteq> []" using isSpecialUrl_blank by blast
  moreover from this have "url \<noteq> []" using trim_Nil by auto
  ultimately show ?thesis
    using assms by (simp add: rewriteUrl_def contentPrefix_def)
qed

theorem rewriteUrl_uses_mapping_in_both_modes_witness:
  "\<not> isSpecialUrl ''/style.css'' \<and>
   rewriteUrl exampleLib exampleRewriter ''/style.css'' True =
     ''/api/archives/test-archive-123/content/assets/css/main_v2.css'' \<and>
   rewriteUrl exampleLib exampleRewriter ''/style.css'' False =
     ''/api/archives/test-archive-123/content/assets/css/main_v2.css''"
proof -
  have h1: "\<not> isSpecialUrl ''/style.css''" by code_simp
  have h2: "assetMappings exampleRewriter (resolveUrl exampleLib exampleRewriter ''/style.css'') =
              Some \<lparr>mapOriginalUrl = ''https://example.com/style.css'',
                    mapLocalPath = ''assets/css/main_v2.css'', mapAssetType = CSS\<rparr>"
    by code_simp
  have h3: "archiveBasePath (rwOptions exampleRewriter) @ ''/'' @ optArchiveId (rwOptions exampleRewriter)
              @ ''/content/'' = ''/api/archives/test-archive-123/content/''"
    by code_simp
  show ?thesis
    using h1 h3 rewriteUrl_uses_mapping_in_both_modes [OF h1 h2, of True]
      rewriteUrl_uses_mapping_in_both_modes [OF h1 h2, of False]
    by simp
qed

text \<open>
  Claim C10. \<open>rewriteUrl\<close> is a total function: every \<open>new URL\<close> call of the source is an
  \<open>option\<close> in the model and each one is handled where the source catches it, so no
  exception leaves the function. Empty, blank and special-scheme inputs come back
  verbatim; when resolving against the base URL fails, \<open>resolveUrl\<close> hands back its
  input; and when the resolved URL (or the base URL) cannot be parsed and no mapping is
  keyed by it, \<open>rewriteUrl\<close> returns the original input.
\<close>

theorem rewriteUrl_returns_input_on_failure:
  "(url = [] \<or> trim url = [] \<or> isSpecialUrl url \<longrightarrow> rewriteUrl L rw url isPageLink = url) \<and>
   (\<not> startsWith url ''http://'' \<and> \<not> startsWith url ''https://'' \<and>
      newURLBase L url (baseUrl (rwOptions rw)) = None \<longrightarrow> resolveUrl L rw url = url) \<and>
   (assetMappings rw (resolveUrl L rw url) = None \<and>
      (newURL L (resolveUrl L rw url) = None \<or> newURL L (baseUrl (rwOptions rw)) = None) \<longrightarrow>
      rewriteUrl L rw url isPageLink = url)"
proof (intro conjI impI)
  assume "url = [] \<or> trim url = [] \<or> isSpecialUrl url"
  then show "rewriteUrl L rw url isPageLink = url"
    by (auto simp: rewriteUrl_def)
next
  assume "\<not> startsWith url ''http://'' \<and> \<not> startsWith url ''https://'' \<and>
      newURLBase L url (baseUrl (rwOptions rw)) = None"
  then show "resolveUrl L rw url = url"
    by (simp add: resolveUrl_def)
next
  assume a: "assetMappings rw (resolveUrl L rw url) = None \<and>
      (newURL L (resolveUrl L rw url) = None \<or> newURL L (baseUrl (rwOptions rw)) = None)"
  then have "\<not> isSameDomain L rw (resolveUrl L rw url)"
    using isSameDomain_parse_fail by blast
  with a show "rewriteUrl L rw url isPageLink = url"
    by (simp add: rewriteUrl_def Let_def)
qed

theorem rewriteUrl_returns_input_on_failure_witness:
  "rewriteUrl exampleLib exampleRewriter ''mailto:test@example.com'' True = ''mailto:test@example.com'' \<and>
   resolveUrl exampleLib (newUrlRewriter ''a1'' ''no base'' None) ''page two'' = ''page two'' \<and>
   rewriteUrl exampleLib exampleRewriter ''https://exa mple.com/x.png'' False = ''https://exa mple.com/x.png''"
proof -
  have h1: "isSpecialUrl ''mailto:test@example.com''" by code_simp
  have h2: "\<not> startsWith ''page two'' ''http://'' \<and> \<not> startsWith ''page two'' ''https://'' \<and>
            newURLBase exampleLib ''page two'' (baseUrl (rwOptions (newUrlRewriter ''a1'' ''no base'' None))) = None"
    by code_simp
  have h3: "assetMappings exampleRewriter (resolveUrl exampleLib exampleRewriter ''https://exa mple.com/x.png'') = None \<and>
            newURL exampleLib (resolveUrl exampleLib exampleRewriter ''https://exa mple.com/x.png'') = None"
    by code_simp
  show ?thesis
    using h1 h2 h3
      rewriteUrl_returns_input_on_failure [of "''mailto:test@example.com''" exampleLib exampleRewriter True]
      rewriteUrl_returns_input_on_failure [of "''page two''" exampleLib "newUrlRewriter ''a1'' ''no base'' None"]
      rewriteUrl_returns_input_on_failure [of "''https://exa mple.com/x.png''" exampleLib exampleRewriter False]
    by blast
qed

section \<open>Asset and page paths: write time against read time\<close>









text \<open>
  Claim C8. The crawler and the rewriter compute page paths with different tests for
  "has an extension": the crawler asks whether the whole path contains a dot, the
  rewriter asks \<open>path.extname\<close> about the last segment. For \<open>/v1.2/about\<close> the crawler
  stores the page under \<open>v1.2/about\<close> while the four-case rule, and the rewriter's
  page links, give \<open>v1.2/about/index.html\<close>.
\<close>

theorem crawler_page_path_differs_from_rewriter:
  "crawlerGeneratePagePath exampleLib 0 ''https://example.com/v1.2/about'' = ''v1.2/about'' \<and>
   generatePagePath exampleLib ''https://example.com/v1.2/about'' = ''v1.2/about/index.html''"
  by code_simp

section \<open>The worked run, evaluated\<close>

text \<open>The states of the worked run, computed once from the definitions.\<close>

lemma twoRunning_eval [code]:
  "twoRunning =
     \<lparr>storage =
         [(''id-1'',
           \<lparr>manifest =
              Some
               \<lparr>archiveId = ''id-1'', archiveUrl = ''https://example1.com/'',
                  domain = ''example1.com'', timestamp = 100,
                  status = IN_PROGRESS, version = 1,
                  metadata =
                    \<lparr>pageCount = 0, assetCount = 0, totalSize = 0,
                       crawlDuration = 0\<rparr>,
                  pages = [], errors = []\<rparr>,
              files = []\<rparr>),
          (''id-2'',
           \<lparr>manifest =
              Some
               \<lparr>archiveId = ''id-2'', archiveUrl = ''https://example2.com/'',
                  domain = ''example2.com'', timestamp = 200,
                  status = IN_PROGRESS, version = 1,
                  metadata =
                    \<lparr>pageCount = 0, assetCount = 0, totalSize = 0,
                       crawlDuration = 0\<rparr>,
                  pages = [], errors = []\<rparr>,
              files = []\<rparr>)],
         activeArchives =
           [(''id-1'',
             \<lparr>progArchiveId = ''id-1'', progUrl = ''https://example1.com/'',
                progStatus = IN_PROGRESS, pagesDiscovered = 0, pagesCrawled = 0,
                assetsDownloaded = 0, progTotalSize = 0, progErrors = [],
                startTime = 100, currentUrl = None\<rparr>),
            (''id-2'',
             \<lparr>progArchiveId = ''id-2'', progUrl = ''https://example2.com/'',
                progStatus = IN_PROGRESS, pagesDiscovered = 0, pagesCrawled = 0,
                assetsDownloaded = 0, progTotalSize = 0, progErrors = [],
                startTime = 200, currentUrl = None\<rparr>)],
         maxConcurrentArchives = 2,
         defaultCrawlerOptions =
           \<lparr>maxDepth = 3, maxPages = 1000, timeout = 15000,
              respectRobots = True\<rparr>\<rparr>"
  by code_simp

lemma justCompleted_eval [code]:
  "justCompleted =
     \<lparr>storage =
         [(''id-v1'',
           \<lparr>manifest =
              Some
               \<lparr>archiveId = ''id-v1'', archiveUrl = ''https://example.com/'',
                  domain = ''example.com'', timestamp = 100, status = COMPLETED,
                  version = 1,
                  metadata =
                    \<lparr>pageCount = 0, assetCount = 0, totalSize = 0,
                       crawlDuration = 1000\<rparr>,
                  pages = [], errors = []\<rparr>,
              files = []\<rparr>)],
         activeArchives =
           [(''id-v1'',
             \<lparr>progArchiveId = ''id-v1'', progUrl = ''https://example.com/'',
                progStatus = COMPLETED, pagesDiscovered = 0, pagesCrawled = 0,
                assetsDownloaded = 0, progTotalSize = 0, progErrors = [],
                startTime = 100, currentUrl = None\<rparr>)],
         maxConcurrentArchives = 2,
         defaultCrawlerOptions =
           \<lparr>maxDepth = 3, maxPages = 1000, timeout = 15000,
              respectRobots = True\<rparr>\<rparr>"
  by code_simp

lemma twoVersions_eval [code]:
  "twoVersions =
     \<lparr>storage =
         [(''id-v1'',
           \<lparr>manifest =
              Some
               \<lparr>archiveId = ''id-v1'', archiveUrl = ''https://example.com/'',
                  domain = ''example.com'', timestamp = 100, status = COMPLETED,
                  version = 1,
                  metadata =
                    \<lparr>pageCount = 0, assetCount = 0, totalSize = 0,
                       crawlDuration = 1000\<rparr>,
                  pages = [], errors = []\<rparr>,
              files = []\<rparr>),
          (''id-v2'',
           \<lparr>manifest =
              Some
               \<lparr>archiveId = ''id-v2'', archiveUrl = ''https://example.com/'',
                  domain = ''example.com'', timestamp = 200, status = COMPLETED,
                  version = 2,
                  metadata =
                    \<lparr>pageCount = 0, assetCount = 0, totalSize = 0,
                       crawlDuration = 1000\<rparr>,
                  pages = [], errors = []\<rparr>,
              files = []\<rparr>)],
         activeArchives = [], maxConcurrentArchives = 2,
         defaultCrawlerOptions =
           \<lparr>maxDepth = 3, maxPages = 1000, timeout = 15000,
              respectRobots = True\<rparr>\<rparr>"
  by code_simp

lemma afterDeletingLatest_eval [code]:
  "afterDeletingLatest =
     \<lparr>storage =
         [(''id-v1'',
           \<lparr>manifest =
              Some
               \<lparr>archiveId = ''id-v1'', archiveUrl = ''https://example.com/'',
                  domain = ''example.com'', timestamp = 100, status = COMPLETED,
                  version = 1,
                  metadata =
                    \<lparr>pageCount = 0, assetCount = 0, totalSize = 0,
                       crawlDuration = 1000\<rparr>,
                  pages = [], errors = []\<rparr>,
              files = []\<rparr>)],
         activeArchives = [], maxConcurrentArchives = 2,
         defaultCrawlerOptions =
           \<lparr>maxDepth = 3, maxPages = 1000, timeout = 15000,
              respectRobots = True\<rparr>\<rparr>"
  by code_simp

section \<open>Properties of the orchestrator: versions, the concurrency cap, deletion\<close>








lemma inProgressCount_le: "inProgressCount s \<le> length (activeArchives s)"
  unfolding inProgressCount_def getActiveArchives_def
  by (metis length_filter_le length_map)

lemma limitMessage_prefix:
  "startsWith (limitMessage cap) ''Maximum concurrent archives limit reached''"
  by (simp add: limitMessage_def startsWith_def)

text \<open>
  Claim C5. When the number of registry entries that are \<open>IN_PROGRESS\<close> has reached the
  configured cap, \<open>createArchive\<close> throws and leaves the service exactly as it was: no
  archive record, no progress entry, no storage. For a URL that passes the two checks in
  front of the cap test the error is the limit message, which the router recognises by
  its first words. A service built without \<open>maxConcurrentArchives\<close> has a cap of three.
\<close>

theorem createArchive_rejects_at_concurrency_cap:
  assumes "maxConcurrentArchives s \<le> inProgressCount s"
  shows "(\<exists>msg. createArchive L io s url aid now = (Inl msg, s) \<and>
           ((\<exists>n d. normalizeUrl L url = Some n \<and> n \<noteq> [] \<and> extractDomain L n = Some d \<and> d \<noteq> [])
              \<longrightarrow> msg = limitMessage (maxConcurrentArchives s) \<and>
                   startsWith msg ''Maximum concurrent archives limit reached'')) \<and>
         maxConcurrentArchives (newArchiveService None crawlerDefaults st) = 3"
proof -
  from assms inProgressCount_le [of s]
  have full: "maxConcurrentArchives s \<le> length (activeArchives s)" by simp
  have "\<exists>msg. createArchive L io s url aid now = (Inl msg, s) \<and>
           ((\<exists>n d. normalizeUrl L url = Some n \<and> n \<noteq> [] \<and> extractDomain L n = Some d \<and> d \<noteq> [])
              \<longrightarrow> msg = limitMessage (maxConcurrentArchives s) \<and>
                   startsWith msg ''Maximum concurrent archives limit reached'')"
    using full limitMessage_prefix
    by (auto simp: createArchive_def split: option.splits)
  then show ?thesis by (simp add: newArchiveService_def)
qed

theorem createArchive_rejects_at_concurrency_cap_witness:
  "maxConcurrentArchives twoRunning = 2 \<and> inProgressCount twoRunning = 2 \<and>
   createArchive exampleLib okIo twoRunning ''https://example3.com'' ''id-3'' 300 =
     (Inl ''Maximum concurrent archives limit reached (2). Please wait for existing archives to complete.'',
      twoRunning)"
proof -
  have cap: "maxConcurrentArchives twoRunning = 2" by code_simp
  have cnt: "inProgressCount twoRunning = 2" by code_simp
  have h: "maxConcurrentArchives twoRunning \<le> inProgressCount twoRunning"
    using cap cnt by simp
  have n: "normalizeUrl exampleLib ''https://example3.com'' = Some ''https://example3.com/''"
    by code_simp
  have d: "extractDomain exampleLib ''https://example3.com/'' = Some ''example3.com''"
    by code_simp
  have valid: "\<exists>n d. normalizeUrl exampleLib ''https://example3.com'' = Some n \<and> n \<noteq> [] \<and>
                 extractDomain exampleLib n = Some d \<and> d \<noteq> []"
    using n d by simp
  have m: "limitMessage 2 =
      ''Maximum concurrent archives limit reached (2). Please wait for existing archives to complete.''"
    by code_simp
  from createArchive_rejects_at_concurrency_cap [OF h, of exampleLib okIo "''https://example3.com''" "''id-3''" 300]
  obtain msg where
    r: "createArchive exampleLib okIo twoRunning ''https://example3.com'' ''id-3'' 300 = (Inl msg, twoRunning)"
    and i: "(\<exists>n d. normalizeUrl exampleLib ''https://example3.com'' = Some n \<and> n \<noteq> [] \<and>
                 extractDomain exampleLib n = Some d \<and> d \<noteq> [])
            \<longrightarrow> msg = limitMessage (maxConcurrentArchives twoRunning) \<and>
                   startsWith msg ''Maximum concurrent archives limit reached''"
    by blast
  from i valid have "msg = limitMessage (maxConcurrentArchives twoRunning)" by blast
  with r cap m cnt show ?thesis by simp
qed




section \<open>Properties of the background run\<close>

lemma oneRunning_eval [code]:
  "oneRunning =
     \<lparr>storage =
         [(''id-v1'',
           \<lparr>manifest =
              Some
               \<lparr>archiveId = ''id-v1'', archiveUrl = ''https://example.com/'',
                  domain = ''example.com'', timestamp = 100,
                  status = IN_PROGRESS, version = 1,
                  metadata =
                    \<lparr>pageCount = 0, assetCount = 0, totalSize = 0,
                       crawlDuration = 0\<rparr>,
                  pages = [], errors = []\<rparr>,
              files = []\<rparr>)],
         activeArchives =
           [(''id-v1'',
             \<lparr>progArchiveId = ''id-v1'', progUrl = ''https://example.com/'',
                progStatus = IN_PROGRESS, pagesDiscovered = 0, pagesCrawled = 0,
                assetsDownloaded = 0, progTotalSize = 0, progErrors = [],
                startTime = 100, currentUrl = None\<rparr>)],
         maxConcurrentArchives = 2,
         defaultCrawlerOptions =
           \<lparr>maxDepth = 3, maxPages = 1000, timeout = 15000,
              respectRobots = True\<rparr>\<rparr>"
  by code_simp

lemma str_includes_mid: "str_includes (pre @ p @ post) p"
proof (induction pre)
  case Nil
  have sw: "startsWith (p @ post) p" by (simp add: startsWith_def)
  show ?case
  proof (cases "p @ post")
    case Nil
    then show ?thesis by simp
  next
    case (Cons c cs)
    with sw show ?thesis by simp
  qed
next
  case (Cons c pre)
  then show ?case by simp
qed

lemma timeout_message_mentions_timeout:
  "str_includes (''Archive partially completed due to timeout: '' @ msg)
     ''partially completed due to timeout''"
proof -
  have "''Archive partially completed due to timeout: '' @ msg =
        ''Archive '' @ ''partially completed due to timeout'' @ ('': '' @ msg)" by simp
  then show ?thesis using str_includes_mid by metis
qed

lemma map_of_update_same: "map_of (AList.update k v al) k = Some v"
  by (simp add: update_conv')

lemma saveArchiveMetadata_load:
  "saveArchiveMetadata None st a = Inr st' \<Longrightarrow> loadArchiveMetadata st' (archiveId a) = Inr a"
  by (auto simp: saveArchiveMetadata_def loadArchiveMetadata_def update_conv' split: option.splits)

lemma saveArchiveMetadata_ok:
  "archiveExists st (archiveId a) \<Longrightarrow> \<exists>st'. saveArchiveMetadata None st a = Inr st'"
  by (auto simp: saveArchiveMetadata_def archiveExists_def split: option.splits)

text \<open>
  Claim C3, as amended. When the race between the crawl and the ten-minute timer rejects
  with message \<open>msg\<close>, the run ends with status \<open>PARTIAL\<close> and one more error of type
  \<open>TIMEOUT_ERROR\<close>, whose message contains "partially completed due to timeout", exactly
  when \<open>msg\<close> contains \<open>timeout\<close> or \<open>timed out\<close> (the timer's own message does);
  otherwise it ends with status \<open>FAILED\<close> and one more \<open>NETWORK_ERROR\<close>. The manifest with
  that status and error list is persisted when the write succeeds; a failing write is
  logged and dropped.
\<close>

theorem crawl_failure_classified_by_message:
  assumes reg: "getArchiveProgress s (archiveId archive) = Some p"
      and race: "raceOutcome env = Inl msg"
  shows "\<exists>p'. getArchiveProgress (performArchiving L env s archive) (archiveId archive) = Some p' \<and>
           progStatus p' = (if str_includes msg ''timeout'' \<or> str_includes msg ''timed out''
                            then PARTIAL else FAILED) \<and>
           progErrors p' = progErrors p @ [failureError msg] \<and>
           errorType (failureError msg) =
             (if str_includes msg ''timeout'' \<or> str_includes msg ''timed out''
              then TIMEOUT_ERROR else NETWORK_ERROR) \<and>
           (str_includes msg ''timeout'' \<or> str_includes msg ''timed out'' \<longrightarrow>
              str_includes (message (failureError msg)) ''partially completed due to timeout'') \<and>
           (failureSaveIo env = None \<and> archiveExists (storage s) (archiveId archive) \<longrightarrow>
              (\<exists>m. loadArchiveMetadata (storage (performArchiving L env s archive)) (archiveId archive)
                      = Inr m \<and>
                    status m = progStatus p' \<and> errors m = progErrors p')) \<and>
           (deadlineFirst env \<longrightarrow> progStatus p' = PARTIAL)"
proof -
  define p0 where "p0 =
     (case lastProgressReport env of
        None \<Rightarrow> p
      | Some (found, crawled, current) \<Rightarrow>
          p\<lparr>pagesDiscovered := found, pagesCrawled := crawled, currentUrl := current\<rparr>)"
  have e0: "progErrors p0 = progErrors p"
    by (simp add: p0_def split: option.splits prod.splits)
  have run: "performArchiving L env s archive = archivingFailed env s archive (storage s) p0 msg"
    using reg race by (simp add: performArchiving_def getArchiveProgress_def p0_def)
  define p' where "p' = p0\<lparr>progStatus := (if isTimeoutMessage msg then PARTIAL else FAILED),
                            progErrors := progErrors p0 @ [failureError msg]\<rparr>"
  have got: "getArchiveProgress (performArchiving L env s archive) (archiveId archive) = Some p'"
    by (simp add: run archivingFailed_def Let_def getArchiveProgress_def update_conv' p'_def)
  have st: "progStatus p' = (if str_includes msg ''timeout'' \<or> str_includes msg ''timed out''
                            then PARTIAL else FAILED)"
    by (simp add: p'_def isTimeoutMessage_def)
  have er: "progErrors p' = progErrors p @ [failureError msg]"
    by (simp add: p'_def e0)
  have ty: "errorType (failureError msg) =
             (if str_includes msg ''timeout'' \<or> str_includes msg ''timed out''
              then TIMEOUT_ERROR else NETWORK_ERROR)"
    by (simp add: failureError_def isTimeoutMessage_def)
  have ms: "str_includes msg ''timeout'' \<or> str_includes msg ''timed out'' \<longrightarrow>
              str_includes (message (failureError msg)) ''partially completed due to timeout''"
    using timeout_message_mentions_timeout [of msg]
    by (simp add: failureError_def isTimeoutMessage_def)
  have ps: "failureSaveIo env = None \<and> archiveExists (storage s) (archiveId archive) \<longrightarrow>
              (\<exists>m. loadArchiveMetadata (storage (performArchiving L env s archive)) (archiveId archive)
                      = Inr m \<and>
                    status m = progStatus p' \<and> errors m = progErrors p')"
  proof
    assume a: "failureSaveIo env = None \<and> archiveExists (storage s) (archiveId archive)"
    define fa where "fa = archive\<lparr>status := progStatus p',
                                 errors := progErrors p',
                                 metadata := \<lparr>pageCount = pagesCrawled p',
                                              assetCount = assetsDownloaded p',
                                              totalSize = progTotalSize p',
                                              crawlDuration = finishTime env - startTime p'\<rparr>\<rparr>"
    have ida: "archiveId fa = archiveId archive" by (simp add: fa_def)
    from a saveArchiveMetadata_ok [of "storage s" fa] ida
    obtain st' where sv: "saveArchiveMetadata None (storage s) fa = Inr st'" by auto
    have "storage (performArchiving L env s archive) = st'"
      using a sv by (simp add: run archivingFailed_def Let_def fa_def p'_def)
    with saveArchiveMetadata_load [OF sv] ida
    have "loadArchiveMetadata (storage (performArchiving L env s archive)) (archiveId archive) = Inr fa"
      by simp
    moreover have "status fa = progStatus p' \<and> errors fa = progErrors p'" by (simp add: fa_def)
    ultimately show "\<exists>m. loadArchiveMetadata (storage (performArchiving L env s archive)) (archiveId archive)
                      = Inr m \<and> status m = progStatus p' \<and> errors m = progErrors p'"
      by blast
  qed
  have "str_includes archiveTimeoutMessage ''timed out''" by code_simp
  with race have dl: "deadlineFirst env \<longrightarrow> progStatus p' = PARTIAL"
    by (auto simp: raceOutcome_def p'_def isTimeoutMessage_def)
  from got st er ty ms ps dl show ?thesis by blast
qed

theorem crawl_failure_classified_by_message_witness:
  "getArchiveProgress oneRunning (archiveId exampleArchive) \<noteq> None \<and>
   raceOutcome (crawlFails ''Network timeout'' None) = Inl ''Network timeout'' \<and>
   map_option progStatus
     (getArchiveProgress
        (performArchiving exampleLib (crawlFails ''Network timeout'' None) oneRunning exampleArchive)
        (archiveId exampleArchive)) = Some PARTIAL \<and>
   map_sum id status
     (loadArchiveMetadata
        (storage (performArchiving exampleLib (crawlFails ''Network timeout'' None) oneRunning exampleArchive))
        (archiveId exampleArchive)) = Inr PARTIAL"
proof -
  define env where "env = crawlFails ''Network timeout'' None"
  define s' where "s' = performArchiving exampleLib env oneRunning exampleArchive"
  have ne: "getArchiveProgress oneRunning (archiveId exampleArchive) \<noteq> None" by code_simp
  then obtain p where reg: "getArchiveProgress oneRunning (archiveId exampleArchive) = Some p"
    by blast
  have race: "raceOutcome env = Inl ''Network timeout''"
    unfolding env_def by code_simp
  have inc: "str_includes ''Network timeout'' ''timeout''" by code_simp
  have io: "failureSaveIo env = None" unfolding env_def by code_simp
  have ex: "archiveExists (storage oneRunning) (archiveId exampleArchive)" by code_simp
  from crawl_failure_classified_by_message [OF reg race, of exampleLib]
  obtain p' where
    g: "getArchiveProgress s' (archiveId exampleArchive) = Some p'"
    and st: "progStatus p' = (if str_includes ''Network timeout'' ''timeout'' \<or>
                                 str_includes ''Network timeout'' ''timed out''
                              then PARTIAL else FAILED)"
    and ps: "failureSaveIo env = None \<and> archiveExists (storage oneRunning) (archiveId exampleArchive) \<longrightarrow>
              (\<exists>m. loadArchiveMetadata (storage s') (archiveId exampleArchive) = Inr m \<and>
                    status m = progStatus p' \<and> errors m = progErrors p')"
    unfolding s'_def by blast
  from st inc have sp: "progStatus p' = PARTIAL" by (simp only: simp_thms if_True)
  from ps io ex obtain m where
    l: "loadArchiveMetadata (storage s') (archiveId exampleArchive) = Inr m"
    and sm: "status m = progStatus p'" by blast
  have a: "map_option progStatus (getArchiveProgress s' (archiveId exampleArchive)) = Some PARTIAL"
    by (simp only: g sp option.map)
  have b: "map_sum id status (loadArchiveMetadata (storage s') (archiveId exampleArchive)) = Inr PARTIAL"
    by (simp add: l sm sp)
  from ne race a b show ?thesis unfolding s'_def env_def by blast
qed

text \<open>
  The claim as stated fails twice in the run below. The crawl rejects with
  "Connection timed out", which does not contain \<open>timeout\<close> and is not the timer's
  message, yet the run ends \<open>PARTIAL\<close> with a \<open>TIMEOUT_ERROR\<close>; and the manifest write in
  the \<open>catch\<close> block fails, so the stored manifest still says \<open>IN_PROGRESS\<close>.
\<close>

theorem timed_out_crawl_is_partial_counterexample:
  "\<not> str_includes ''Connection timed out'' ''timeout'' \<and>
   ''Connection timed out'' \<noteq> archiveTimeoutMessage \<and>
   raceOutcome (crawlFails ''Connection timed out'' (Some ''ENOSPC: no space left on device''))
     = Inl ''Connection timed out'' \<and>
   map_option (\<lambda>p. (progStatus p, map errorType (progErrors p)))
     (getArchiveProgress
        (performArchiving exampleLib
           (crawlFails ''Connection timed out'' (Some ''ENOSPC: no space left on device''))
           oneRunning exampleArchive)
        ''id-v1'') = Some (PARTIAL, [TIMEOUT_ERROR]) \<and>
   map_sum id status
     (loadArchiveMetadata
        (storage (performArchiving exampleLib
           (crawlFails ''Connection timed out'' (Some ''ENOSPC: no space left on device''))
           oneRunning exampleArchive))
        ''id-v1'') = Inr IN_PROGRESS"
  by code_simp

section \<open>Properties of the discovery engine\<close>






section \<open>Properties of the asset downloads\<close>




























end
